theory Spec2Isabelle
  imports Complex_Main "HOL-Library.AList" "HOL-Library.Char_ord" "HOL-Library.List_Lexorder"
    "HOL-Library.Product_Lexorder"
begin

section \<open>Data model of \<open>gnssmapper/satellitedata.py\<close>\<close>

text \<open>
  Calendar days (\<open>"2020042"\<close>) and satellite ids (\<open>"G01"\<close>) are strings. Times of day are
  integer nanoseconds. The float64 coordinates of the source are modelled as reals: rounding
  is not modelled, and the one float value the source writes itself, \<open>np.nan\<close>, is a
  constructor of its own.
\<close>

type_synonym day = string
type_synonym svid = string

datatype fval = NaN | Fin real

text \<open>
  What \<open>_locate_sat_vectorised\<close> returns is a numpy array: of shape \<open>(n,)\<close> (\<open>Arr1\<close>) or of
  shape \<open>(n, 3)\<close> (\<open>Arr2\<close>, a list of rows).
\<close>

datatype ndarray = Arr1 "fval list" | Arr2 "fval list list"

datatype exn = ValueError | IndexError | Collaborator_error string

text \<open>The calls of \<open>warnings.warn\<close> in the source, one constructor per call site.\<close>

datatype warning =
    Orbit_unavailable svid day
  | No_valid_dictionary svid day int
  | Final_unavailable
  | Rapid_unavailable

text \<open>
  The lists \<open>mid\<close> and \<open>scale\<close> of a window: four floats, \<open>[tm, x, y, z]\<close>, as
  \<open>_poly_lagrange\<close> writes them.
\<close>

record vec4 =
  v_tm :: real
  v_x :: real
  v_y :: real
  v_z :: real

text \<open>
  The dictionary \<open>_poly_lagrange\<close> builds for one window (\<open>poly_dict\<close> in \<open>predict\<close>): the keys
  \<open>"lb"\<close>, \<open>"ub"\<close>, \<open>"mid"\<close>, \<open>"scale"\<close>, \<open>"x"\<close>, \<open>"y"\<close>, \<open>"z"\<close>.
\<close>

record window =
  lb :: int
  ub :: int
  mid :: vec4
  scale :: vec4
  coef_x :: "real list"
  coef_y :: "real list"
  coef_z :: "real list"

text \<open>
  A satellite's window map is an ordered dictionary from the window's midpoint time to the
  window: an association list, in the dictionary's order. The key is the integer that
  \<open>np.array(keys).astype("float").astype("int64")\<close> reads from it. A day's model maps
  satellite ids to window maps.
\<close>

type_synonym orbit = "(int \<times> window) list"
type_synonym model = "(svid \<times> orbit) list"

section \<open>Position evaluator\<close>

subsection \<open>\<open>np.searchsorted(keys_int, times, side="left")\<close>\<close>

text \<open>
  The binary search of numpy for one query value \<open>v\<close> in the array \<open>a\<close>, which numpy takes to
  be sorted: the bounds close in on the first index whose element is not below \<open>v\<close>.
\<close>

function searchsorted_aux :: "int list \<Rightarrow> int \<Rightarrow> nat \<Rightarrow> nat \<Rightarrow> nat" where
  "searchsorted_aux a v lo hi =
     (if lo < hi
      then (let m = lo + (hi - lo) div 2
            in if a ! m < v then searchsorted_aux a v (m + 1) hi
               else searchsorted_aux a v lo m)
      else lo)"
  by pat_completeness auto
termination
  by (relation "measure (\<lambda>(a, v, lo, hi). hi - lo)") auto

declare searchsorted_aux.simps [simp del]

definition searchsorted :: "int list \<Rightarrow> int \<Rightarrow> nat" where
  "searchsorted a v = searchsorted_aux a v 0 (length a)"

subsection \<open>Nearest window, lines 149 to 157 of \<open>_locate_sat_vectorised\<close>\<close>

text \<open>
  For one query time: \<open>close\<close>, \<open>lower = max(0, close - 1)\<close>,
  \<open>upper = min(len(keys_int) - 1, close)\<close>, the two distances, and
  \<open>np.where(lower_diff < upper_diff, lower, upper)\<close>. With no key at all \<open>keys_int[0]\<close> is
  out of range and numpy raises IndexError; otherwise both indices are in range.
\<close>

definition nearest_idx :: "int list \<Rightarrow> int \<Rightarrow> exn + nat" where
  "nearest_idx keys_int t =
     (if keys_int = [] then Inl IndexError
      else
        (let close = int (searchsorted keys_int t);
             lower = max 0 (close - 1);
             upper = min (int (length keys_int) - 1) close;
             lower_diff = \<bar>keys_int ! nat lower - t\<bar>;
             upper_diff = \<bar>keys_int ! nat upper - t\<bar>
         in Inr (nat (if lower_diff < upper_diff then lower else upper))))"

subsection \<open>\<open>predict\<close> and \<open>predict_dim\<close>\<close>

text \<open>
  \<open>numpy.polynomial.polynomial.polyval(x, c)\<close> for a scalar \<open>x\<close>: Horner's scheme from the
  last coefficient down, \<open>c0 = c[-1] + x*0\<close> and then \<open>c0 = c[-i] + c0*x\<close>. An empty
  coefficient list has no \<open>c[-1]\<close>: IndexError.
\<close>

definition polyval :: "real \<Rightarrow> real list \<Rightarrow> exn + real" where
  "polyval x c = (if c = [] then Inl IndexError else Inr (foldr (\<lambda>ci c0. ci + c0 * x) c 0))"

datatype dim = X | Y | Z

text \<open>
  \<open>predict_dim\<close>: the polynomial of the dimension at the scaled time, unscaled by
  \<open>scale[n]\<close> and \<open>mid[n]\<close>. Where \<open>scale[0]\<close> is zero, numpy's float division yields an
  infinity or a NaN and no exception, and \<open>polyval\<close>'s first step \<open>c[-1] + x*0\<close> makes it
  NaN: the value is NaN.
\<close>

definition predict_dim :: "window \<Rightarrow> int \<Rightarrow> dim \<Rightarrow> exn + fval" where
  "predict_dim poly_dict t d =
     (let c = (case d of X \<Rightarrow> coef_x poly_dict | Y \<Rightarrow> coef_y poly_dict | Z \<Rightarrow> coef_z poly_dict);
          scale_n = (case d of X \<Rightarrow> v_x (scale poly_dict) | Y \<Rightarrow> v_y (scale poly_dict)
                      | Z \<Rightarrow> v_z (scale poly_dict));
          mid_n = (case d of X \<Rightarrow> v_x (mid poly_dict) | Y \<Rightarrow> v_y (mid poly_dict)
                      | Z \<Rightarrow> v_z (mid poly_dict))
      in if c = [] then Inl IndexError
         else if v_tm (scale poly_dict) = 0 then Inr NaN
         else
           (case polyval ((of_int t - v_tm (mid poly_dict)) / v_tm (scale poly_dict)) c of
              Inl e \<Rightarrow> Inl e
            | Inr p \<Rightarrow> Inr (Fin (p * scale_n + mid_n))))"

text \<open>
  \<open>predict(i, time)\<close> on the window \<open>orbit[keys[i]]\<close>: the warnings it emits and the row it
  returns, or the exception of a \<open>predict_dim\<close>.
\<close>

definition predict :: "day \<Rightarrow> svid \<Rightarrow> window \<Rightarrow> int \<Rightarrow> exn + (warning list \<times> fval list)" where
  "predict d s poly_dict t =
     (if t > ub poly_dict \<or> t < lb poly_dict
      then Inr ([No_valid_dictionary s d t], [NaN, NaN, NaN])
      else
        (case predict_dim poly_dict t X of
           Inl e \<Rightarrow> Inl e
         | Inr px \<Rightarrow>
            (case predict_dim poly_dict t Y of
               Inl e \<Rightarrow> Inl e
             | Inr py \<Rightarrow>
                (case predict_dim poly_dict t Z of
                   Inl e \<Rightarrow> Inl e
                 | Inr pz \<Rightarrow> Inr ([], [px, py, pz])))))"

subsection \<open>\<open>_locate_sat_vectorised\<close>\<close>

text \<open>
  The list comprehension \<open>[predict(i, t) for i, t in zip(idx, times)]\<close> over the rows of the
  group, in order: the warnings accumulate, the first exception ends the call. The indices
  \<open>idx\<close> are computed for all rows before the first \<open>predict\<close>.
\<close>

fun predict_rows :: "day \<Rightarrow> svid \<Rightarrow> orbit \<Rightarrow> (nat \<times> int) list \<Rightarrow> exn + (warning list \<times> fval list list)" where
  "predict_rows d s orb [] = Inr ([], [])"
| "predict_rows d s orb ((i, t) # rest) =
     (case predict d s (snd (orb ! i)) t of
        Inl e \<Rightarrow> Inl e
      | Inr (w, row) \<Rightarrow>
         (case predict_rows d s orb rest of
            Inl e \<Rightarrow> Inl e
          | Inr (ws, rows) \<Rightarrow> Inr (w @ ws, row # rows)))"

fun nearest_idxs :: "int list \<Rightarrow> int list \<Rightarrow> exn + nat list" where
  "nearest_idxs keys_int [] = Inr []"
| "nearest_idxs keys_int (t # ts) =
     (case nearest_idx keys_int t of
        Inl e \<Rightarrow> Inl e
      | Inr i \<Rightarrow> (case nearest_idxs keys_int ts of Inl e \<Rightarrow> Inl e | Inr is \<Rightarrow> Inr (i # is)))"

text \<open>
  \<open>self.orbits\<close>, the in-memory cache: a dictionary from days to models. The test
  \<open>day not in self.orbits or svid not in self.orbits[day]\<close> reads it without adding a key.
\<close>

definition lookup_orbit :: "(day \<rightharpoonup> model) \<Rightarrow> day \<Rightarrow> svid \<Rightarrow> orbit option" where
  "lookup_orbit orbs d s = (case orbs d of None \<Rightarrow> None | Some m \<Rightarrow> map_of m s)"

text \<open>
  \<open>np.array\<close> of the list of rows: an empty list gives an array of shape \<open>(0,)\<close>, a list of
  \<open>n\<close> rows one of shape \<open>(n, 3)\<close>.
\<close>

definition np_array :: "fval list list \<Rightarrow> ndarray" where
  "np_array rows = (if rows = [] then Arr1 [] else Arr2 rows)"

text \<open>
  The whole function, on the times \<open>ts\<close> of one group, a float array holding integer
  nanoseconds (the docstring of \<open>_locate_sat\<close> gives \<open>time : float\<close>). In the branch for an
  absent day or satellite, \<open>np.ones_like(times)\<close> has the shape of \<open>times\<close>, \<open>(n,)\<close>, and is
  filled with NaN. (On an array of integer dtype that assignment of NaN is refused by numpy
  with a ValueError.)
\<close>

definition locate_sat_vectorised ::
  "(day \<rightharpoonup> model) \<Rightarrow> day \<Rightarrow> int list \<Rightarrow> svid \<Rightarrow> exn + (warning list \<times> ndarray)" where
  "locate_sat_vectorised orbs d ts s =
     (case lookup_orbit orbs d s of
        None \<Rightarrow> Inr ([Orbit_unavailable s d], Arr1 (replicate (length ts) NaN))
      | Some orb \<Rightarrow>
         (case nearest_idxs (map fst orb) ts of
            Inl e \<Rightarrow> Inl e
          | Inr idx \<Rightarrow>
             (case predict_rows d s orb (zip idx ts) of
                Inl e \<Rightarrow> Inl e
              | Inr (ws, rows) \<Rightarrow> Inr (ws, np_array rows))))"

text \<open>
  A window whose three coefficient lists are not empty, as every fit of a polynomial
  through eight points is.
\<close>

definition has_coefs :: "window \<Rightarrow> bool" where
  "has_coefs w \<longleftrightarrow> coef_x w \<noteq> [] \<and> coef_y w \<noteq> [] \<and> coef_z w \<noteq> []"

subsection \<open>\<open>_locate_sat\<close>\<close>

text \<open>
  \<open>np.unique\<close> of an array of strings: its distinct values, sorted.
\<close>

definition np_unique :: "string list \<Rightarrow> string list" where
  "np_unique xs = sort (remdups xs)"

text \<open>
  \<open>output[mask, :] = result\<close>, where \<open>output\<close> has three columns and \<open>mask\<close> selects \<open>n\<close> of
  its rows. numpy broadcasts \<open>result\<close> to the shape \<open>(n, 3)\<close>: an array of shape \<open>(n, 3)\<close>
  or \<open>(1, 3)\<close> fits, an array of shape \<open>(k,)\<close> fits when \<open>k\<close> is 3 (one row, repeated) or 1
  (one value, repeated), and any other shape is a ValueError, also when the mask selects
  no row. The mask is \<open>msk\<close> below; \<open>scatter\<close> writes the rows \<open>vals\<close> into the selected
  rows of \<open>out\<close>, in order.
\<close>

fun scatter :: "bool list \<Rightarrow> 'a list \<Rightarrow> 'a list \<Rightarrow> 'a list" where
  "scatter (True # msk) (r # out) (v # vals) = v # scatter msk out vals"
| "scatter (False # msk) (r # out) vals = r # scatter msk out vals"
| "scatter msk out vals = out"

definition assign_rows :: "fval list list \<Rightarrow> bool list \<Rightarrow> ndarray \<Rightarrow> exn + fval list list" where
  "assign_rows output msk result =
     (let n = length (filter (\<lambda>b. b) msk)
      in case result of
           Arr2 rows \<Rightarrow>
             if length rows = n then Inr (scatter msk output rows)
             else if length rows = 1 then Inr (scatter msk output (replicate n (hd rows)))
             else Inl ValueError
         | Arr1 vals \<Rightarrow>
             if length vals = 3 then Inr (scatter msk output (replicate n vals))
             else if length vals = 1
               then Inr (scatter msk output (replicate n (replicate 3 (hd vals))))
             else Inl ValueError)"

text \<open>
  The query batch is the three arrays \<open>day\<close>, \<open>time\<close>, \<open>svid\<close> of \<open>_locate_sat\<close>, of one
  length, as a list of rows \<open>(day, time, svid)\<close>. The two nested loops run over the pairs of
  a distinct day and a distinct satellite id, the days in the outer loop.
\<close>

fun locate_groups ::
  "(day \<rightharpoonup> model) \<Rightarrow> (day \<times> int \<times> svid) list \<Rightarrow> (day \<times> svid) list \<Rightarrow>
     warning list \<times> fval list list \<Rightarrow> exn + (warning list \<times> fval list list)" where
  "locate_groups orbs batch [] acc = Inr acc"
| "locate_groups orbs batch ((d, s) # groups) (ws, output) =
     (let msk = map (\<lambda>(d', t, s'). d' = d \<and> s' = s) batch
      in case locate_sat_vectorised orbs d
                (map (\<lambda>(d', t, s'). t) (filter (\<lambda>(d', t, s'). d' = d \<and> s' = s) batch)) s of
           Inl e \<Rightarrow> Inl e
         | Inr (w, result) \<Rightarrow>
            (case assign_rows output msk result of
               Inl e \<Rightarrow> Inl e
             | Inr output' \<Rightarrow> locate_groups orbs batch groups (ws @ w, output')))"

definition locate_sat ::
  "(day \<rightharpoonup> model) \<Rightarrow> (day \<times> int \<times> svid) list \<Rightarrow> exn + (warning list \<times> fval list list)" where
  "locate_sat orbs batch =
     (let output = replicate (length batch) [NaN, NaN, NaN];
          day_unique = np_unique (map (\<lambda>(d, t, s). d) batch);
          svid_unique = np_unique (map (\<lambda>(d, t, s). s) batch)
      in locate_groups orbs batch
           (concat (map (\<lambda>d. map (\<lambda>s. (d, s)) svid_unique) day_unique)) ([], output))"

section \<open>Orbit fitter\<close>

text \<open>
  A row of the frame \<open>orbits\<close> that \<open>_create_orbit\<close> hands to \<open>_poly_lagrange\<close>: the columns
  \<open>tm\<close> (int64), \<open>x\<close>, \<open>y\<close>, \<open>z\<close> (float64).
\<close>

record sample =
  c_tm :: int
  c_x :: real
  c_y :: real
  c_z :: real

text \<open>
  A row of the frame \<open>_get_sp3_dataframe\<close> returns, with the columns \<open>_create_orbit\<close> reads:
  \<open>row_doy\<close> is the integer \<open>date.str[4:].astype(int)\<close> of the row, its day of the year.
\<close>

record sp3_row =
  row_doy :: int
  row_time :: int
  row_svid :: svid
  row_x :: real
  row_y :: real
  row_z :: real

text \<open>
  A row of the frame as pandas reads it with \<open>iloc[k, :]\<close>: the four columns as floats.
\<close>

definition row_vec :: "sample \<Rightarrow> vec4" where
  "row_vec r = \<lparr>v_tm = of_int (c_tm r), v_x = c_x r, v_y = c_y r, v_z = c_z r\<rparr>"

definition vec_sub :: "vec4 \<Rightarrow> vec4 \<Rightarrow> vec4" where
  "vec_sub a b = \<lparr>v_tm = v_tm a - v_tm b, v_x = v_x a - v_x b, v_y = v_y a - v_y b,
                  v_z = v_z a - v_z b\<rparr>"

text \<open>
  \<open>_poly_lagrange(i, alldata)\<close>. The coefficients are floating-point work of scipy on
  \<open>scaled_data = (data_var - mid) / scale\<close>: the parameter \<open>coefs\<close> stands for the closure
  \<open>coefs(dim)\<close> of the source, as a function of the eight rows \<open>data_var\<close> it is computed from.
  The key of the window is \<open>mid.tolist()[0]\<close>, the time of the row \<open>data_var.iloc[3]\<close>.
\<close>

definition poly_lagrange ::
  "(sample list \<Rightarrow> dim \<Rightarrow> real list) \<Rightarrow> int \<Rightarrow> sample list \<Rightarrow> exn + (int \<times> window)" where
  "poly_lagrange coefs i alldata =
     (if i < 3 \<or> i > int (length alldata) - 5 then Inl ValueError
      else
        (let data_var = take 8 (drop (nat (i - 3)) alldata);
             lb' = c_tm (data_var ! 0);
             ub' = c_tm (data_var ! 7);
             mid' = row_vec (data_var ! 3);
             scale' = vec_sub (row_vec (data_var ! 7)) (row_vec (data_var ! 0))
         in Inr (c_tm (data_var ! 3),
              \<lparr>lb = lb', ub = ub', mid = mid', scale = scale',
               coef_x = coefs data_var X, coef_y = coefs data_var Y,
               coef_z = coefs data_var Z\<rparr>)))"

text \<open>
  Python's \<open>range(start, stop, step)\<close> as a list, for a positive step (the source's step
  is 4).
\<close>

function py_range :: "int \<Rightarrow> int \<Rightarrow> int \<Rightarrow> int list" where
  "py_range start stop step =
     (if 0 < step \<and> start < stop then start # py_range (start + step) stop step else [])"
  by pat_completeness auto
termination
  by (relation "measure (\<lambda>(start, stop, step). nat (stop - start))") auto

declare py_range.simps [simp del]

text \<open>
  The loop \<open>for i in idxs\<close>: each window is stored under its key in the satellite's
  dictionary (a later window with the key of an earlier one replaces it); the exception of
  \<open>_poly_lagrange\<close> ends the loop.
\<close>

fun fit_windows ::
  "(sample list \<Rightarrow> dim \<Rightarrow> real list) \<Rightarrow> sample list \<Rightarrow> int list \<Rightarrow> orbit \<Rightarrow> exn + orbit" where
  "fit_windows coefs series [] acc = Inr acc"
| "fit_windows coefs series (i # idxs) acc =
     (case poly_lagrange coefs i series of
        Inl e \<Rightarrow> Inl e
      | Inr (k, v) \<Rightarrow> fit_windows coefs series idxs (AList.update k v acc))"

text \<open>
  The body of the loop \<open>for id_ in sp3_df["svid"].unique()\<close> on the rows \<open>orbits\<close> of one
  satellite: the centre indices, where \<open>idxs[-1]\<close> of an empty list is an IndexError, and
  the windows.
\<close>

definition fit_series ::
  "(sample list \<Rightarrow> dim \<Rightarrow> real list) \<Rightarrow> sample list \<Rightarrow> exn + orbit" where
  "fit_series coefs series =
     (let idxs = py_range 3 (int (length series) - 5) 4
      in if idxs = [] then Inl IndexError
         else fit_windows coefs series
                (if last idxs \<noteq> int (length series) - 5
                 then idxs @ [int (length series) - 5] else idxs) [])"

text \<open>\<open>Series.unique()\<close> of pandas: the distinct values in the order of first appearance.\<close>

definition unique :: "'a list \<Rightarrow> 'a list" where
  "unique xs = rev (remdups (rev xs))"

fun fit_satellites ::
  "(sample list \<Rightarrow> dim \<Rightarrow> real list) \<Rightarrow> (svid \<times> sample) list \<Rightarrow> svid list \<Rightarrow> model \<Rightarrow>
     exn + model" where
  "fit_satellites coefs df [] polyXYZ = Inr polyXYZ"
| "fit_satellites coefs df (sv # ids) polyXYZ =
     (case fit_series coefs (map snd (filter (\<lambda>r. fst r = sv) df)) of
        Inl e \<Rightarrow> Inl e
      | Inr orb \<Rightarrow> fit_satellites coefs df ids (AList.update sv orb polyXYZ))"

text \<open>
  \<open>_create_orbit(sp3_df)\<close>: \<open>min(day)\<close> of an empty frame is a ValueError; \<open>tm\<close> counts the
  nanoseconds from the start of the first day of the frame; \<open>sort_values(["svid", "tm"])\<close>
  is a stable sort on the pair.
\<close>

definition create_orbit ::
  "(sample list \<Rightarrow> dim \<Rightarrow> real list) \<Rightarrow> sp3_row list \<Rightarrow> exn + model" where
  "create_orbit coefs sp3_df =
     (if sp3_df = [] then Inl ValueError
      else
        (let min_day = fold min (map row_doy (tl sp3_df)) (row_doy (hd sp3_df));
             with_tm = map (\<lambda>r. (row_svid r,
                          \<lparr>c_tm = row_time r + (row_doy r - min_day) * 24 * 3600 * 10 ^ 9,
                           c_x = row_x r, c_y = row_y r, c_z = row_z r\<rparr>)) sp3_df;
             df = sort_key (\<lambda>r. (fst r, c_tm (snd r))) with_tm
         in fit_satellites coefs df (unique (map fst df)) []))"

section \<open>Orbit store and model updater\<close>

datatype tier = Final | Rapid | Ultra

text \<open>
  The state of a \<open>SatelliteData\<close> object and of what it touches: the cache \<open>self.orbits\<close>,
  the files of the package directory \<open>data.orbits\<close> (a dictionary from file names to the
  model a file holds, in the order of the listing), the warnings emitted and the calls of
  \<open>_get_sp3_file\<close> made, both oldest first.
\<close>

record store =
  orbits :: "day \<rightharpoonup> model"
  files :: "(string \<times> model) list"
  warned :: "warning list"
  fetched :: "(day \<times> tier) list"

text \<open>
  The collaborators of the updater: \<open>_get_sp3_file\<close> (download and decompression),
  \<open>_get_sp3_dataframe\<close> (parsing) and the coefficient fit, each returning its result or
  the exception it raises.
\<close>

record 'sp3 collaborators =
  get_sp3_file :: "day \<Rightarrow> tier \<Rightarrow> exn + 'sp3"
  get_sp3_dataframe :: "'sp3 \<Rightarrow> exn + sp3_row list"
  lagrange_coefs :: "sample list \<Rightarrow> dim \<Rightarrow> real list"

definition get_filename :: "day \<Rightarrow> string" where
  "get_filename d = ''orbits_'' @ d @ ''.json''"

text \<open>
  \<open>re.split(r"_|\.", f)\<close>: the fields of a file name between its underscores and dots.
  The list of the fields is never empty, so the first branch of the \<open>case\<close> is never
  taken.
\<close>

fun re_split :: "string \<Rightarrow> string list" where
  "re_split [] = [[]]"
| "re_split (c # cs) =
     (if c = CHR ''_'' \<or> c = CHR ''.'' then [] # re_split cs
      else (case re_split cs of [] \<Rightarrow> [[c]] | f # fs \<Rightarrow> (c # f) # fs))"

text \<open>
  \<open>metadata\<close>: of every file whose name starts with \<open>orbits_\<close>, the second field of the
  name (a name with that start has at least two fields).
\<close>

definition metadata :: "store \<Rightarrow> day set" where
  "metadata st =
     set (map (\<lambda>f. re_split f ! 1) (filter (\<lambda>f. take 7 f = ''orbits_'') (map fst (files st))))"

text \<open>
  \<open>_load_orbit\<close>: the model in the file \<open>orbits_<day>.json\<close>, or \<open>dict()\<close> when opening the
  file fails with an OSError. A file of that name holds what \<open>_save_orbit\<close> wrote.
\<close>

definition load_orbit :: "store \<Rightarrow> day \<Rightarrow> model" where
  "load_orbit st d = (case map_of (files st) (get_filename d) of Some m \<Rightarrow> m | None \<Rightarrow> [])"

definition save_orbit :: "store \<Rightarrow> day \<Rightarrow> model \<Rightarrow> store" where
  "save_orbit st d data_var = st\<lparr>files := AList.update (get_filename d) data_var (files st)\<rparr>"

text \<open>
  Lines 195 to 205: the nested \<open>try\<close> blocks. The calls for \<open>final\<close> and \<open>rapid\<close> are
  guarded by a bare \<open>except\<close> that warns and goes on; the call for \<open>ultra\<close> is in no \<open>try\<close>
  block, so its exception leaves \<open>_update_orbits\<close>.
\<close>

definition fetch_sp3 :: "'sp3 collaborators \<Rightarrow> store \<Rightarrow> day \<Rightarrow> (exn + 'sp3) \<times> store" where
  "fetch_sp3 env st d =
     (let s1 = st\<lparr>fetched := fetched st @ [(d, Final)]\<rparr>
      in case get_sp3_file env d Final of
           Inr sp3 \<Rightarrow> (Inr sp3, s1)
         | Inl e1 \<Rightarrow>
            (let s2 = s1\<lparr>warned := warned s1 @ [Final_unavailable],
                         fetched := fetched s1 @ [(d, Rapid)]\<rparr>
             in case get_sp3_file env d Rapid of
                  Inr sp3 \<Rightarrow> (Inr sp3, s2)
                | Inl e2 \<Rightarrow>
                   (let s3 = s2\<lparr>warned := warned s2 @ [Rapid_unavailable],
                                fetched := fetched s2 @ [(d, Ultra)]\<rparr>
                    in (get_sp3_file env d Ultra, s3))))"

text \<open>
  The body of the loop \<open>for day in missing_days\<close>: the outcome is the exception that leaves
  the loop, if any, and the state reached.
\<close>

definition build_orbit :: "'sp3 collaborators \<Rightarrow> store \<Rightarrow> day \<Rightarrow> exn option \<times> store" where
  "build_orbit env st d =
     (case fetch_sp3 env st d of
        (Inl e, s1) \<Rightarrow> (Some e, s1)
      | (Inr sp3, s1) \<Rightarrow>
         (case get_sp3_dataframe env sp3 of
            Inl e \<Rightarrow> (Some e, s1)
          | Inr df \<Rightarrow>
             (case create_orbit (lagrange_coefs env) df of
                Inl e \<Rightarrow> (Some e, s1)
              | Inr unsorted_orbit \<Rightarrow>
                 (None, save_orbit s1 d
                    (map (\<lambda>(sv, dic). (sv, sort_key fst dic)) unsorted_orbit)))))"

fun build_missing :: "'sp3 collaborators \<Rightarrow> store \<Rightarrow> day list \<Rightarrow> exn option \<times> store" where
  "build_missing env st [] = (None, st)"
| "build_missing env st (d # ds) =
     (case build_orbit env st d of
        (Some e, s1) \<Rightarrow> (Some e, s1)
      | (None, s1) \<Rightarrow> build_missing env s1 ds)"

text \<open>Lines 214 to 216: every requested day that is not a key of the cache is loaded.\<close>

fun load_days :: "store \<Rightarrow> day list \<Rightarrow> store" where
  "load_days st [] = st"
| "load_days st (d # ds) =
     load_days (if d \<notin> dom (orbits st)
                then st\<lparr>orbits := (orbits st)(d \<mapsto> load_orbit st d)\<rparr> else st) ds"

text \<open>
  \<open>_update_orbits(days)\<close>. The set \<open>days_\<close> is the list \<open>days_set\<close> of the distinct requested days; the
  order in which Python walks a set is not fixed, and the theorems below hold for every
  list \<open>days\<close>, so for every order.
\<close>

definition update_orbits :: "'sp3 collaborators \<Rightarrow> store \<Rightarrow> day list \<Rightarrow> exn option \<times> store" where
  "update_orbits env st days =
     (let days_set = remdups days;
          missing_days = filter (\<lambda>d. d \<notin> metadata st) days_set
      in case build_missing env st missing_days of
           (Some e, s1) \<Rightarrow> (Some e, s1)
         | (None, s1) \<Rightarrow> (None, load_days s1 days_set))"

section \<open>Example inputs\<close>

text \<open>
  Collaborators for the examples below: the final product exists for the day 2020001 only,
  the rapid product for the day 2020002 only, no product for any other day; every product
  parses to nine rows of the satellite G01, five minutes apart.
\<close>

definition staged_products :: "string collaborators" where
  "staged_products =
     \<lparr>get_sp3_file = (\<lambda>d t.
        if d = ''2020001'' \<and> t = Final then Inr ''final product''
        else if d = ''2020002'' \<and> t = Rapid then Inr ''rapid product''
        else Inl (Collaborator_error
               (case t of Final \<Rightarrow> ''final'' | Rapid \<Rightarrow> ''rapid'' | Ultra \<Rightarrow> ''ultra''))),
      get_sp3_dataframe = (\<lambda>sp3. Inr (map (\<lambda>k.
        \<lparr>row_doy = 1, row_time = 300 * int k, row_svid = ''G01'',
         row_x = 0, row_y = 0, row_z = 0\<rparr>) [0..<9])),
      lagrange_coefs = (\<lambda>data_var d. [1])\<rparr>"

text \<open>A new \<open>SatelliteData\<close> object over an empty directory.\<close>

definition fresh_store :: store where
  "fresh_store = \<lparr>orbits = Map.empty, files = [], warned = [], fetched = []\<rparr>"


section \<open>Properties of the binary search\<close>

lemma searchsorted_aux_range:
  "lo \<le> hi \<Longrightarrow> lo \<le> searchsorted_aux a v lo hi \<and> searchsorted_aux a v lo hi \<le> hi"
proof (induction a v lo hi rule: searchsorted_aux.induct)
  case (1 a v lo hi)
  show ?case
  proof (cases "lo < hi")
    case False
    then show ?thesis using 1(3) by (subst (1 2) searchsorted_aux.simps) simp
  next
    case True
    define m where "m = lo + (hi - lo) div 2"
    have m: "lo \<le> m" "m < hi" using True by (auto simp: m_def)
    show ?thesis
    proof (cases "a ! m < v")
      case T2: True
      from 1(1)[OF True m_def T2] m
      have "m + 1 \<le> searchsorted_aux a v (m + 1) hi \<and> searchsorted_aux a v (m + 1) hi \<le> hi"
        by simp
      moreover have "searchsorted_aux a v lo hi = searchsorted_aux a v (m + 1) hi"
        using True T2 by (subst searchsorted_aux.simps) (simp add: m_def Let_def)
      ultimately show ?thesis using m by simp
    next
      case F2: False
      from 1(2)[OF True m_def F2] m
      have "lo \<le> searchsorted_aux a v lo m \<and> searchsorted_aux a v lo m \<le> m"
        by simp
      moreover have "searchsorted_aux a v lo hi = searchsorted_aux a v lo m"
        using True F2 by (subst searchsorted_aux.simps) (simp add: m_def Let_def)
      ultimately show ?thesis using m by simp
    qed
  qed
qed

lemma searchsorted_aux_split:
  assumes "sorted a" "lo \<le> hi" "hi \<le> length a"
    and "\<forall>i<lo. a ! i < v" and "\<forall>i. hi \<le> i \<and> i < length a \<longrightarrow> v \<le> a ! i"
  shows "(\<forall>i<searchsorted_aux a v lo hi. a ! i < v) \<and>
         (\<forall>i. searchsorted_aux a v lo hi \<le> i \<and> i < length a \<longrightarrow> v \<le> a ! i)"
  using assms
proof (induction a v lo hi rule: searchsorted_aux.induct)
  case (1 a v lo hi)
  show ?case
  proof (cases "lo < hi")
    case False
    then have e: "searchsorted_aux a v lo hi = lo"
      by (subst searchsorted_aux.simps) simp
    from False 1(4) have "lo = hi" by simp
    with e 1(6,7) show ?thesis by simp
  next
    case True
    define m where "m = lo + (hi - lo) div 2"
    have m: "lo \<le> m" "m < hi" using True by (auto simp: m_def)
    show ?thesis
    proof (cases "a ! m < v")
      case T2: True
      have e: "searchsorted_aux a v lo hi = searchsorted_aux a v (m + 1) hi"
        using True T2 by (subst searchsorted_aux.simps) (simp add: m_def Let_def)
      have below: "\<forall>i<m + 1. a ! i < v"
      proof (intro allI impI)
        fix i assume "i < m + 1"
        then have "i \<le> m" by simp
        with \<open>sorted a\<close> m 1(5) have "a ! i \<le> a ! m"
          by (auto simp: sorted_iff_nth_mono)
        with T2 show "a ! i < v" by simp
      qed
      from 1(1)[OF True m_def T2 1(3) _ 1(5) below 1(7)] m e show ?thesis by simp
    next
      case F2: False
      have e: "searchsorted_aux a v lo hi = searchsorted_aux a v lo m"
        using True F2 by (subst searchsorted_aux.simps) (simp add: m_def Let_def)
      have above: "\<forall>i. m \<le> i \<and> i < length a \<longrightarrow> v \<le> a ! i"
      proof (intro allI impI)
        fix i assume "m \<le> i \<and> i < length a"
        with \<open>sorted a\<close> have "a ! m \<le> a ! i"
          by (auto simp: sorted_iff_nth_mono)
        with F2 show "v \<le> a ! i" by simp
      qed
      from 1(2)[OF True m_def F2 1(3) m(1) _ 1(6) above] m 1(5) e show ?thesis by simp
    qed
  qed
qed

lemma searchsorted_le_length: "searchsorted a v \<le> length a"
  using searchsorted_aux_range [of 0 "length a" a v] by (simp add: searchsorted_def)

lemma searchsorted_sorted:
  assumes "sorted a"
  shows "(\<forall>i<searchsorted a v. a ! i < v) \<and>
         (\<forall>i. searchsorted a v \<le> i \<and> i < length a \<longrightarrow> v \<le> a ! i)"
  using searchsorted_aux_split [OF assms, of 0 "length a" v] by (simp add: searchsorted_def)

section \<open>Nearest-window selection\<close>

lemma nearest_idx_in_range:
  assumes "keys_int \<noteq> []"
  shows "\<exists>i. nearest_idx keys_int t = Inr i \<and> i < length keys_int"
proof -
  define r where "r = searchsorted keys_int t"
  define n where "n = length keys_int"
  have "r \<le> n" unfolding r_def n_def by (rule searchsorted_le_length)
  moreover have "0 < n" using assms by (simp add: n_def)
  ultimately have "nat (max 0 (int r - 1)) < n" "nat (min (int n - 1) (int r)) < n"
    by arith+
  then show ?thesis using assms
    by (simp add: nearest_idx_def Let_def r_def n_def)
qed

lemma nearest_idxs_in_range:
  assumes "keys_int \<noteq> []"
  shows "\<exists>idx. nearest_idxs keys_int ts = Inr idx \<and> length idx = length ts
           \<and> list_all (\<lambda>i. i < length keys_int) idx"
proof (induction ts)
  case Nil
  show ?case by simp
next
  case (Cons t ts)
  from nearest_idx_in_range [OF assms, of t] obtain i
    where "nearest_idx keys_int t = Inr i" "i < length keys_int" by blast
  with Cons show ?case by auto
qed

lemma searchsorted_below_first:
  assumes "sorted a" "a \<noteq> []" "v < hd a"
  shows "searchsorted a v = 0"
proof (rule ccontr)
  assume "searchsorted a v \<noteq> 0"
  then have "0 < searchsorted a v" by simp
  with searchsorted_sorted [OF assms(1), of v] have "a ! 0 < v" by blast
  with assms(2,3) show False by (simp add: hd_conv_nth)
qed

lemma searchsorted_above_last:
  assumes "sorted a" "a \<noteq> []" "last a < v"
  shows "searchsorted a v = length a"
proof (rule ccontr)
  assume ne: "searchsorted a v \<noteq> length a"
  with searchsorted_le_length [of a v] have lt: "searchsorted a v < length a" by simp
  then have "searchsorted a v \<le> length a - 1 \<and> length a - 1 < length a" by arith
  with searchsorted_sorted [OF assms(1), of v] have "v \<le> a ! (length a - 1)" by blast
  with assms(2,3) show False by (simp add: last_conv_nth)
qed

text \<open>
  Claim C10. For a non-empty window map whose midpoint keys are in ascending order and
  for every query time, the nearest-window search returns an index of the map, so the
  lookup \<open>orbit[keys[i]]\<close> cannot be out of range: a time before the first midpoint selects
  the first window, a time after the last midpoint selects the last one, and the search
  over a whole group of times returns one index of the map per time.
\<close>

theorem nearest_idx_clamped:
  assumes "keys_int \<noteq> []" and "sorted keys_int"
  shows "(\<exists>i. nearest_idx keys_int t = Inr i \<and> i < length keys_int
            \<and> (t < hd keys_int \<longrightarrow> i = 0)
            \<and> (last keys_int < t \<longrightarrow> i = length keys_int - 1))
         \<and> (\<exists>idx. nearest_idxs keys_int ts = Inr idx \<and> length idx = length ts
            \<and> list_all (\<lambda>i. i < length keys_int) idx)"
proof -
  from nearest_idx_in_range [OF assms(1), of t] obtain i
    where i: "nearest_idx keys_int t = Inr i" "i < length keys_int" by blast
  have first: "i = 0" if "t < hd keys_int"
  proof -
    from searchsorted_below_first [OF assms(2,1) that] have "searchsorted keys_int t = 0" .
    with i(1) assms(1) show ?thesis by (simp add: nearest_idx_def Let_def)
  qed
  have lst: "i = length keys_int - 1" if "last keys_int < t"
  proof -
    from searchsorted_above_last [OF assms(2,1) that]
    have "searchsorted keys_int t = length keys_int" .
    with i(1) assms(1) show ?thesis by (auto simp: nearest_idx_def Let_def split: if_splits)
  qed
  from i first lst nearest_idxs_in_range [OF assms(1), of ts] show ?thesis by blast
qed

theorem nearest_idx_clamped_witness:
  "[900, 2100] \<noteq> ([] :: int list) \<and> sorted [900, 2100 :: int]
   \<and> nearest_idx [900, 2100] 100 = Inr 0 \<and> nearest_idx [900, 2100] 5000 = Inr 1
   \<and> nearest_idxs [900, 2100] [100, 5000] = Inr [0, 1]"
proof -
  have ne: "[900, 2100] \<noteq> ([] :: int list)" by simp
  have so: "sorted [900, 2100 :: int]" by simp
  from nearest_idx_clamped [OF ne so, of 100 "[]"]
  have a: "nearest_idx [900, 2100] 100 = Inr 0" by auto
  from nearest_idx_clamped [OF ne so, of 5000 "[]"]
  have b: "nearest_idx [900, 2100] 5000 = Inr 1" by auto
  from a b ne so show ?thesis by simp
qed

text \<open>
  Claim C2, as stated, fails: with the midpoints 0 and 10 the time 5 is equidistant from
  both, and the search selects index 1, the later window, not index 0.
\<close>

theorem nearest_idx_tie_counterexample:
  "sorted [0, 10 :: int] \<and> (5 :: int) - [0, 10] ! 0 = [0, 10] ! 1 - 5
   \<and> nearest_idx [0, 10] 5 = Inr 1 \<and> nearest_idx [0, 10] 5 \<noteq> Inr 0"
  by (simp add: nearest_idx_def searchsorted_def searchsorted_aux.simps)

text \<open>
  Claim C2, amended. For a query time exactly equidistant between two adjacent distinct
  midpoints of a window map in ascending order, the search selects the upper, later window:
  \<open>np.where(lower_diff < upper_diff, lower, upper)\<close> takes \<open>lower\<close> only on a strictly
  smaller distance.
\<close>

theorem nearest_idx_tie:
  assumes "sorted keys_int" and "Suc j < length keys_int"
    and "keys_int ! j < keys_int ! Suc j"
    and "t - keys_int ! j = keys_int ! Suc j - t"
  shows "nearest_idx keys_int t = Inr (Suc j)"
proof -
  let ?r = "searchsorted keys_int t"
  from assms(3,4) have lt: "keys_int ! j < t" "t < keys_int ! Suc j" by arith+
  have "j < ?r"
  proof (rule ccontr)
    assume "\<not> j < ?r"
    then have "?r \<le> j \<and> j < length keys_int" using assms(2) by simp
    with searchsorted_sorted [OF assms(1), of t] have "t \<le> keys_int ! j" by blast
    with lt show False by simp
  qed
  moreover have "?r \<le> Suc j"
  proof (rule ccontr)
    assume "\<not> ?r \<le> Suc j"
    then have "Suc j < ?r" by simp
    with searchsorted_sorted [OF assms(1), of t] have "keys_int ! Suc j < t" by blast
    with lt show False by simp
  qed
  ultimately have r: "?r = Suc j" by simp
  have ne: "keys_int \<noteq> []" using assms(2) by auto
  from assms(4) have "\<bar>keys_int ! j - t\<bar> = \<bar>keys_int ! Suc j - t\<bar>" by arith
  with r ne assms(2) show ?thesis
    by (simp add: nearest_idx_def Let_def nat_add_distrib)
qed

theorem nearest_idx_tie_witness:
  "sorted [900, 2100, 3300 :: int] \<and> Suc 1 < length [900, 2100, 3300 :: int]
   \<and> [900, 2100, 3300 :: int] ! 1 < [900, 2100, 3300] ! Suc 1
   \<and> (2700 :: int) - [900, 2100, 3300] ! 1 = [900, 2100, 3300] ! Suc 1 - 2700
   \<and> nearest_idx [900, 2100, 3300] 2700 = Inr (Suc 1)"
proof -
  have h1: "sorted [900, 2100, 3300 :: int]" by simp
  have h2: "Suc 1 < length [900, 2100, 3300 :: int]" by simp
  have h3: "[900, 2100, 3300 :: int] ! 1 < [900, 2100, 3300] ! Suc 1" by simp
  have h4: "(2700 :: int) - [900, 2100, 3300] ! 1 = [900, 2100, 3300] ! Suc 1 - 2700" by simp
  from nearest_idx_tie [OF h1 h2 h3 h4] h1 h2 h3 h4 show ?thesis by blast
qed

section \<open>Window fits\<close>




section \<open>Window centres of a series\<close>

lemma upt12: "[0..<12] = [0, 1, 2, 3, 4, 5, 6, 7, 8, 9, 10, 11]"
  by (simp add: upt_rec)

lemma py_range_3_7: "py_range 3 7 4 = [3]"
  by (simp add: py_range.simps)

text \<open>
  Claim C4, as stated, fails: the twelve rows of one satellite at the times 0, 300, ...,
  3300 give two windows, with the keys 900 and 2100, and the second window, centred at the
  row 7, is built from the rows 4 to 11: its lower bound is 1200, the time of the row 4,
  not 600.
\<close>

theorem create_orbit_twelve_counterexample:
  "create_orbit (\<lambda>data_var d. [])
     (map (\<lambda>k. \<lparr>row_doy = 42, row_time = 300 * int k, row_svid = ''G01'',
                row_x = 0, row_y = 0, row_z = 0\<rparr>) [0..<12])
   = Inr [(''G01'',
       [(900, \<lparr>lb = 0, ub = 2100, mid = \<lparr>v_tm = 900, v_x = 0, v_y = 0, v_z = 0\<rparr>,
               scale = \<lparr>v_tm = 2100, v_x = 0, v_y = 0, v_z = 0\<rparr>,
               coef_x = [], coef_y = [], coef_z = []\<rparr>),
        (2100, \<lparr>lb = 1200, ub = 3300, mid = \<lparr>v_tm = 2100, v_x = 0, v_y = 0, v_z = 0\<rparr>,
               scale = \<lparr>v_tm = 2100, v_x = 0, v_y = 0, v_z = 0\<rparr>,
               coef_x = [], coef_y = [], coef_z = []\<rparr>)])]
   \<and> (1200 :: int) \<noteq> 600"
  unfolding upt12
  by (simp add: create_orbit_def unique_def fit_series_def py_range_3_7 poly_lagrange_def Let_def
      row_vec_def vec_sub_def)

text \<open>
  Claim C4, amended. For the twelve rows of one satellite at the times 0, 300, ..., 3300,
  whatever their coordinates, \<open>_create_orbit\<close> produces exactly two windows for the
  satellite, centred at the rows 3 and 7 (the second is the appended tail window): the
  first has the lower bound 0 and the upper bound 2100, the second the lower bound 1200
  and the upper bound 3300.
\<close>

theorem create_orbit_twelve:
  fixes rx ry rz :: "nat \<Rightarrow> real" and dy :: int and sv :: svid
  shows "\<exists>w1 w2.
       create_orbit coefs
         (map (\<lambda>k. \<lparr>row_doy = dy, row_time = 300 * int k, row_svid = sv,
                    row_x = rx k, row_y = ry k, row_z = rz k\<rparr>) [0..<12])
         = Inr [(sv, [(900, w1), (2100, w2)])]
     \<and> lb w1 = 0 \<and> ub w1 = 2100
     \<and> mid w1 = \<lparr>v_tm = 900, v_x = rx 3, v_y = ry 3, v_z = rz 3\<rparr>
     \<and> lb w2 = 1200 \<and> ub w2 = 3300
     \<and> mid w2 = \<lparr>v_tm = 2100, v_x = rx 7, v_y = ry 7, v_z = rz 7\<rparr>"
  unfolding upt12
  by (simp add: create_orbit_def unique_def fit_series_def py_range_3_7 poly_lagrange_def Let_def
      row_vec_def)

section \<open>Series too short to fit\<close>











lemma upt9: "[0..<9] = [0, 1, 2, 3, 4, 5, 6, 7, 8]"
  by (simp add: upt_rec)




section \<open>Validity bounds of the selected window\<close>

lemma predict_dim_has_coefs:
  assumes "has_coefs w"
  shows "\<exists>v. predict_dim w t dm = Inr v \<and> (v_tm (scale w) \<noteq> 0 \<longrightarrow> (\<exists>p. v = Fin p))"
  using assms by (cases dm) (auto simp: predict_dim_def polyval_def has_coefs_def Let_def)

lemma predict_outside:
  assumes "t < lb w \<or> ub w < t"
  shows "predict d s w t = Inr ([No_valid_dictionary s d t], [NaN, NaN, NaN])"
  using assms by (auto simp: predict_def)

lemma predict_inside:
  assumes "has_coefs w" and "lb w \<le> t" and "t \<le> ub w"
  shows "\<exists>row. predict d s w t = Inr ([], row)
           \<and> map Inr row = map (predict_dim w t) [X, Y, Z]
           \<and> (v_tm (scale w) \<noteq> 0 \<longrightarrow> (\<exists>px py pz. row = [Fin px, Fin py, Fin pz]))"
proof -
  from predict_dim_has_coefs [OF assms(1), of t X] obtain px
    where px: "predict_dim w t X = Inr px" "v_tm (scale w) \<noteq> 0 \<longrightarrow> (\<exists>p. px = Fin p)" by blast
  from predict_dim_has_coefs [OF assms(1), of t Y] obtain py
    where py: "predict_dim w t Y = Inr py" "v_tm (scale w) \<noteq> 0 \<longrightarrow> (\<exists>p. py = Fin p)" by blast
  from predict_dim_has_coefs [OF assms(1), of t Z] obtain pz
    where pz: "predict_dim w t Z = Inr pz" "v_tm (scale w) \<noteq> 0 \<longrightarrow> (\<exists>p. pz = Fin p)" by blast
  have "predict d s w t = Inr ([], [px, py, pz])"
    using assms(2,3) px(1) py(1) pz(1) by (simp add: predict_def)
  with px py pz show ?thesis by auto
qed

lemma predict_warnings:
  assumes "predict d s w t = Inr (ws, row)" and "x \<in> set ws"
  shows "x = No_valid_dictionary s d t \<and> (t < lb w \<or> ub w < t)"
  using assms by (auto simp: predict_def split: if_splits sum.splits)

lemma predict_has_coefs_total:
  assumes "has_coefs w"
  shows "\<exists>ws row. predict d s w t = Inr (ws, row)"
proof (cases "t < lb w \<or> ub w < t")
  case True
  from predict_outside [OF True] show ?thesis by blast
next
  case False
  then have "lb w \<le> t" "t \<le> ub w" by auto
  from predict_inside [OF assms this] show ?thesis by blast
qed

lemma nearest_idxs_nth:
  assumes "nearest_idxs keys_int ts = Inr idx" and "j < length ts"
  shows "nearest_idx keys_int (ts ! j) = Inr (idx ! j)"
  using assms
proof (induction ts arbitrary: idx j)
  case Nil
  then show ?case by simp
next
  case (Cons t ts)
  from Cons.prems(1) obtain i rest where
    i: "nearest_idx keys_int t = Inr i" "nearest_idxs keys_int ts = Inr rest" "idx = i # rest"
    by (auto split: sum.splits)
  show ?case
  proof (cases j)
    case 0
    with i show ?thesis by simp
  next
    case (Suc k)
    with Cons.prems(2) have "k < length ts" by simp
    from Cons.IH [OF i(2) this] Suc i(3) show ?thesis by simp
  qed
qed

lemma predict_rows_total:
  assumes "\<forall>p\<in>set its. \<exists>r. predict d s (snd (orb ! fst p)) (snd p) = Inr r"
  shows "\<exists>ws rows. predict_rows d s orb its = Inr (ws, rows) \<and> length rows = length its
     \<and> (\<forall>j<length its. \<exists>wj. predict d s (snd (orb ! fst (its ! j))) (snd (its ! j))
                                  = Inr (wj, rows ! j) \<and> set wj \<subseteq> set ws)
     \<and> (\<forall>x\<in>set ws. \<exists>j<length its. \<exists>wj row.
            predict d s (snd (orb ! fst (its ! j))) (snd (its ! j)) = Inr (wj, row)
            \<and> x \<in> set wj)"
  using assms
proof (induction its)
  case Nil
  show ?case by simp
next
  case (Cons p its)
  obtain i t where p: "p = (i, t)" by (cases p)
  from Cons.prems p obtain w row where h: "predict d s (snd (orb ! i)) t = Inr (w, row)"
    by fastforce
  from Cons.IH Cons.prems obtain ws rows where
    r: "predict_rows d s orb its = Inr (ws, rows)" "length rows = length its"
      "\<forall>j<length its. \<exists>wj. predict d s (snd (orb ! fst (its ! j))) (snd (its ! j))
                                  = Inr (wj, rows ! j) \<and> set wj \<subseteq> set ws"
      "\<forall>x\<in>set ws. \<exists>j<length its. \<exists>wj row.
            predict d s (snd (orb ! fst (its ! j))) (snd (its ! j)) = Inr (wj, row)
            \<and> x \<in> set wj"
    by auto
  have e: "predict_rows d s orb (p # its) = Inr (w @ ws, row # rows)"
    using h r(1) p by simp
  have a: "\<forall>j<length (p # its). \<exists>wj. predict d s (snd (orb ! fst ((p # its) ! j))) (snd ((p # its) ! j))
                                  = Inr (wj, (row # rows) ! j) \<and> set wj \<subseteq> set (w @ ws)"
  proof (intro allI impI)
    fix j assume j: "j < length (p # its)"
    show "\<exists>wj. predict d s (snd (orb ! fst ((p # its) ! j))) (snd ((p # its) ! j))
                                  = Inr (wj, (row # rows) ! j) \<and> set wj \<subseteq> set (w @ ws)"
    proof (cases j)
      case 0
      with h p show ?thesis by auto
    next
      case (Suc k)
      with j have "k < length its" by simp
      with r(3) obtain wk where "predict d s (snd (orb ! fst (its ! k))) (snd (its ! k))
                                  = Inr (wk, rows ! k) \<and> set wk \<subseteq> set ws" by blast
      with Suc show ?thesis by auto
    qed
  qed
  have b: "\<forall>x\<in>set (w @ ws). \<exists>j<length (p # its). \<exists>wj row.
            predict d s (snd (orb ! fst ((p # its) ! j))) (snd ((p # its) ! j)) = Inr (wj, row)
            \<and> x \<in> set wj"
  proof
    fix x assume "x \<in> set (w @ ws)"
    then consider "x \<in> set w" | "x \<in> set ws" by auto
    then show "\<exists>j<length (p # its). \<exists>wj row.
            predict d s (snd (orb ! fst ((p # its) ! j))) (snd ((p # its) ! j)) = Inr (wj, row)
            \<and> x \<in> set wj"
    proof cases
      case 1
      with h p have "predict d s (snd (orb ! fst ((p # its) ! 0))) (snd ((p # its) ! 0)) = Inr (w, row)
            \<and> x \<in> set w" by simp
      then show ?thesis by (intro exI [of _ 0]) auto
    next
      case 2
      with r(4) obtain k wk rk where k: "k < length its"
        "predict d s (snd (orb ! fst (its ! k))) (snd (its ! k)) = Inr (wk, rk)" "x \<in> set wk"
        by blast
      then have "predict d s (snd (orb ! fst ((p # its) ! Suc k))) (snd ((p # its) ! Suc k)) = Inr (wk, rk)
            \<and> x \<in> set wk" by simp
      with k(1) show ?thesis by (intro exI [of _ "Suc k"]) auto
    qed
  qed
  from e r(2) a b show ?case by auto
qed

text \<open>
  Claim C7. For a group whose day and satellite are in the cache with a non-empty window
  map of fitted windows, the call returns one row per query time, and for every row: if
  the time lies strictly outside the interval from \<open>lb\<close> to \<open>ub\<close> of the window the search
  selected, the row is \<open>(NaN, NaN, NaN)\<close> and the warning for that time is among the
  warnings emitted, so no extrapolated value is returned; if the time lies in the interval,
  its bounds included, the row holds the three values \<open>predict_dim\<close> computes (numbers,
  unless the time scale of the window is zero) and no warning is emitted for that time.
\<close>

theorem locate_sat_vectorised_bounds:
  assumes "lookup_orbit orbs d s = Some orb" and "orb \<noteq> []"
    and "list_all (\<lambda>kw. has_coefs (snd kw)) orb"
    and "j < length ts"
  shows "\<exists>ws rows i. locate_sat_vectorised orbs d ts s = Inr (ws, Arr2 rows)
      \<and> length rows = length ts
      \<and> nearest_idx (map fst orb) (ts ! j) = Inr i \<and> i < length orb
      \<and> (ts ! j < lb (snd (orb ! i)) \<or> ub (snd (orb ! i)) < ts ! j
           \<longrightarrow> rows ! j = [NaN, NaN, NaN] \<and> No_valid_dictionary s d (ts ! j) \<in> set ws)
      \<and> (lb (snd (orb ! i)) \<le> ts ! j \<and> ts ! j \<le> ub (snd (orb ! i))
           \<longrightarrow> map Inr (rows ! j) = map (predict_dim (snd (orb ! i)) (ts ! j)) [X, Y, Z]
             \<and> (v_tm (scale (snd (orb ! i))) \<noteq> 0
                  \<longrightarrow> (\<exists>px py pz. rows ! j = [Fin px, Fin py, Fin pz]))
             \<and> No_valid_dictionary s d (ts ! j) \<notin> set ws)"
proof -
  let ?keys = "map fst orb"
  have ne: "?keys \<noteq> []" using assms(2) by simp
  from nearest_idxs_in_range [OF ne, of ts] obtain idx where
    idx: "nearest_idxs ?keys ts = Inr idx" "length idx = length ts"
      "list_all (\<lambda>i. i < length ?keys) idx" by blast
  have win: "has_coefs (snd (orb ! i))" if "i < length orb" for i
    using assms(3) that by (simp add: list_all_length)
  have idx_lt: "idx ! k < length orb" if "k < length ts" for k
    using idx(2,3) that by (simp add: list_all_length)
  let ?its = "zip idx ts"
  have len: "length ?its = length ts" using idx(2) by simp
  have tot: "\<forall>p\<in>set ?its. \<exists>r. predict d s (snd (orb ! fst p)) (snd p) = Inr r"
  proof
    fix p assume "p \<in> set ?its"
    then obtain k where k: "k < length ?its" "p = ?its ! k" by (auto simp: in_set_conv_nth)
    with len idx(2) have "fst p = idx ! k" "k < length ts" by simp_all
    with idx_lt win have "has_coefs (snd (orb ! fst p))" by simp
    from predict_has_coefs_total [OF this] show "\<exists>r. predict d s (snd (orb ! fst p)) (snd p) = Inr r"
      by auto
  qed
  from predict_rows_total [OF tot] obtain ws rows where
    r: "predict_rows d s orb ?its = Inr (ws, rows)" "length rows = length ?its"
      "\<forall>k<length ?its. \<exists>wk. predict d s (snd (orb ! fst (?its ! k))) (snd (?its ! k))
                                  = Inr (wk, rows ! k) \<and> set wk \<subseteq> set ws"
      "\<forall>x\<in>set ws. \<exists>k<length ?its. \<exists>wk row.
            predict d s (snd (orb ! fst (?its ! k))) (snd (?its ! k)) = Inr (wk, row)
            \<and> x \<in> set wk"
    by blast
  have nth: "?its ! k = (idx ! k, ts ! k)" if "k < length ts" for k
    using that idx(2) by simp
  have rows_ne: "rows \<noteq> []" using r(2) len assms(4) by auto
  have call: "locate_sat_vectorised orbs d ts s = Inr (ws, Arr2 rows)"
    using assms(1) idx(1) r(1) rows_ne by (simp add: locate_sat_vectorised_def np_array_def)
  let ?i = "idx ! j"
  let ?w = "snd (orb ! ?i)"
  have ni: "nearest_idx ?keys (ts ! j) = Inr ?i"
    using nearest_idxs_nth [OF idx(1) assms(4)] .
  from r(3) len assms(4) nth [OF assms(4)] obtain wj where
    wj: "predict d s ?w (ts ! j) = Inr (wj, rows ! j)" "set wj \<subseteq> set ws"
    by (metis fst_conv snd_conv)
  have out: "rows ! j = [NaN, NaN, NaN] \<and> No_valid_dictionary s d (ts ! j) \<in> set ws"
    if "ts ! j < lb ?w \<or> ub ?w < ts ! j"
    using predict_outside [OF that, of d s] wj by auto
  have inside: "map Inr (rows ! j) = map (predict_dim ?w (ts ! j)) [X, Y, Z]
             \<and> (v_tm (scale ?w) \<noteq> 0 \<longrightarrow> (\<exists>px py pz. rows ! j = [Fin px, Fin py, Fin pz]))
             \<and> No_valid_dictionary s d (ts ! j) \<notin> set ws"
    if b: "lb ?w \<le> ts ! j \<and> ts ! j \<le> ub ?w"
  proof -
    from b have b1: "lb ?w \<le> ts ! j" and b2: "ts ! j \<le> ub ?w" by simp_all
    from predict_inside [OF win [OF idx_lt [OF assms(4)]] b1 b2, of d s] wj(1)
    have 1: "map Inr (rows ! j) = map (predict_dim ?w (ts ! j)) [X, Y, Z]
             \<and> (v_tm (scale ?w) \<noteq> 0 \<longrightarrow> (\<exists>px py pz. rows ! j = [Fin px, Fin py, Fin pz]))"
      by auto
    have 2: "No_valid_dictionary s d (ts ! j) \<notin> set ws"
    proof
      assume "No_valid_dictionary s d (ts ! j) \<in> set ws"
      with r(4) obtain k wk rk where k: "k < length ?its"
        "predict d s (snd (orb ! fst (?its ! k))) (snd (?its ! k)) = Inr (wk, rk)"
        "No_valid_dictionary s d (ts ! j) \<in> set wk" by blast
      from k(1) len have kl: "k < length ts" by simp
      from k(2) nth [OF kl] have pk: "predict d s (snd (orb ! (idx ! k))) (ts ! k) = Inr (wk, rk)"
        by simp
      from predict_warnings [OF pk k(3)]
      have eq: "ts ! k = ts ! j" and ob: "ts ! k < lb (snd (orb ! (idx ! k))) \<or> ub (snd (orb ! (idx ! k))) < ts ! k"
        by simp_all
      from nearest_idxs_nth [OF idx(1) kl] eq ni have "idx ! k = ?i" by simp
      with ob eq b show False by simp
    qed
    from 1 2 show ?thesis by simp
  qed
  have len': "length rows = length ts" using r(2) len by simp
  have "locate_sat_vectorised orbs d ts s = Inr (ws, Arr2 rows)
      \<and> length rows = length ts
      \<and> nearest_idx (map fst orb) (ts ! j) = Inr ?i \<and> ?i < length orb
      \<and> (ts ! j < lb ?w \<or> ub ?w < ts ! j
           \<longrightarrow> rows ! j = [NaN, NaN, NaN] \<and> No_valid_dictionary s d (ts ! j) \<in> set ws)
      \<and> (lb ?w \<le> ts ! j \<and> ts ! j \<le> ub ?w
           \<longrightarrow> map Inr (rows ! j) = map (predict_dim ?w (ts ! j)) [X, Y, Z]
             \<and> (v_tm (scale ?w) \<noteq> 0
                  \<longrightarrow> (\<exists>px py pz. rows ! j = [Fin px, Fin py, Fin pz]))
             \<and> No_valid_dictionary s d (ts ! j) \<notin> set ws)"
    using call len' ni idx_lt [OF assms(4)] out inside by (intro conjI impI) simp_all
  then show ?thesis by (intro exI [of _ ws] exI [of _ rows] exI [of _ ?i])
qed


theorem locate_sat_vectorised_bounds_witness:
  "locate_sat_vectorised
     [''2020042'' \<mapsto> [(''G01'',
        [(900, \<lparr>lb = 0, ub = 2100, mid = \<lparr>v_tm = 900, v_x = 1, v_y = 2, v_z = 3\<rparr>,
                scale = \<lparr>v_tm = 2100, v_x = 10, v_y = 20, v_z = 30\<rparr>,
                coef_x = [0, 1], coef_y = [1], coef_z = [0, 0, 1]\<rparr>)])]]
     ''2020042'' [2101, 2100, 0, - 1] ''G01''
   = Inr ([No_valid_dictionary ''G01'' ''2020042'' 2101,
           No_valid_dictionary ''G01'' ''2020042'' (- 1)],
          Arr2 [[NaN, NaN, NaN], [Fin (47 / 7), Fin 22, Fin (627 / 49)],
                [Fin (- 23 / 7), Fin 22, Fin (417 / 49)], [NaN, NaN, NaN]])"
proof -
  let ?w = "\<lparr>lb = 0, ub = 2100, mid = \<lparr>v_tm = 900, v_x = 1, v_y = 2, v_z = 3\<rparr>,
                scale = \<lparr>v_tm = 2100, v_x = 10, v_y = 20, v_z = 30\<rparr>,
                coef_x = [0, 1], coef_y = [1], coef_z = [0, 0, 1]\<rparr>"
  let ?orb = "[(900 :: int, ?w)]"
  let ?orbs = "[''2020042'' \<mapsto> [(''G01'', ?orb)]]"
  let ?ts = "[2101, 2100, 0, - 1] :: int list"
  have h1: "lookup_orbit ?orbs ''2020042'' ''G01'' = Some ?orb" by (simp add: lookup_orbit_def)
  have h2: "?orb \<noteq> []" by simp
  have h3: "list_all (\<lambda>kw. has_coefs (snd kw)) ?orb" by (simp add: has_coefs_def)
  have h4: "0 < length ?ts" by simp
  have ni: "nearest_idx [900] t = Inr 0" for t
    using nearest_idx_in_range [of "[900]" t] by auto
  from locate_sat_vectorised_bounds [OF h1 h2 h3 h4] ni [of 2101]
  obtain ws rows where r: "locate_sat_vectorised ?orbs ''2020042'' ?ts ''G01'' = Inr (ws, Arr2 rows)"
    "length rows = 4" "rows ! 0 = [NaN, NaN, NaN]"
    by auto
  have "locate_sat_vectorised ?orbs ''2020042'' ?ts ''G01''
   = Inr ([No_valid_dictionary ''G01'' ''2020042'' 2101,
           No_valid_dictionary ''G01'' ''2020042'' (- 1)],
          Arr2 [[NaN, NaN, NaN], [Fin (47 / 7), Fin 22, Fin (627 / 49)],
                [Fin (- 23 / 7), Fin 22, Fin (417 / 49)], [NaN, NaN, NaN]])"
    by (simp add: locate_sat_vectorised_def h1 ni predict_def predict_dim_def polyval_def
        np_array_def Let_def)
  with r show ?thesis by simp
qed

section \<open>A day or satellite absent from the cache\<close>

lemma locate_sat_vectorised_absent:
  assumes "lookup_orbit orbs d s = None"
  shows "locate_sat_vectorised orbs d ts s
     = Inr ([Orbit_unavailable s d], Arr1 (replicate (length ts) NaN))"
  using assms by (simp add: locate_sat_vectorised_def)

lemma locate_sat_one_row:
  "locate_sat Map.empty [(''2020042'', 0, ''G01'')]
     = Inr ([Orbit_unavailable ''G01'' ''2020042''], [[NaN, NaN, NaN]])"
  by (simp add: locate_sat_vectorised_def lookup_orbit_def locate_sat_def np_unique_def
      assign_rows_def Let_def numeral_3_eq_3)


text \<open>
  Claim C1 on the code, for a group of two rows whose day is absent from the cache:
  \<open>_locate_sat_vectorised\<close> warns and returns an array of shape \<open>(2,)\<close>, one NaN per row and
  not one triple per row, and the assignment \<open>output[mask, :] = result\<close> of \<open>_locate_sat\<close>
  cannot broadcast that shape to \<open>(2, 3)\<close>: the batch call raises ValueError.
\<close>

theorem locate_sat_missing_orbit:
  "locate_sat_vectorised Map.empty ''2020042'' [0, 1] ''G01''
     = Inr ([Orbit_unavailable ''G01'' ''2020042''], Arr1 [NaN, NaN])
   \<and> locate_sat Map.empty [(''2020042'', 0, ''G01''), (''2020042'', 1, ''G01'')]
     = Inl ValueError"
  by (simp add: locate_sat_vectorised_def lookup_orbit_def locate_sat_def np_unique_def
      assign_rows_def Let_def numeral_3_eq_3)


section \<open>Product tiers of the updater\<close>

lemma fetch_sp3_final:
  assumes "get_sp3_file env d Final = Inr f"
  shows "fetch_sp3 env st d = (Inr f, st\<lparr>fetched := fetched st @ [(d, Final)]\<rparr>)"
  using assms by (simp add: fetch_sp3_def)

lemma fetch_sp3_rapid:
  assumes "get_sp3_file env d Final = Inl e1" and "get_sp3_file env d Rapid = Inr r"
  shows "fetch_sp3 env st d =
     (Inr r, st\<lparr>warned := warned st @ [Final_unavailable],
               fetched := fetched st @ [(d, Final), (d, Rapid)]\<rparr>)"
  using assms by (simp add: fetch_sp3_def)

lemma fetch_sp3_ultra:
  assumes "get_sp3_file env d Final = Inl e1" and "get_sp3_file env d Rapid = Inl e2"
  shows "fetch_sp3 env st d =
     (get_sp3_file env d Ultra,
      st\<lparr>warned := warned st @ [Final_unavailable, Rapid_unavailable],
         fetched := fetched st @ [(d, Final), (d, Rapid), (d, Ultra)]\<rparr>)"
  using assms by (simp add: fetch_sp3_def)

lemma fetch_sp3_frame:
  assumes "fetch_sp3 env st d = (r, s1)"
  shows "orbits s1 = orbits st \<and> files s1 = files st"
  using assms by (auto simp: fetch_sp3_def Let_def split: sum.splits)

lemma build_orbit_frame:
  assumes "build_orbit env st d = (r, s1)"
  shows "orbits s1 = orbits st
     \<and> (r \<noteq> None \<longrightarrow> files s1 = files st)
     \<and> (r = None \<longrightarrow> (\<exists>m. files s1 = AList.update (get_filename d) m (files st)))"
proof -
  obtain q s0 where f: "fetch_sp3 env st d = (q, s0)" by (cases "fetch_sp3 env st d")
  from fetch_sp3_frame [OF f] have fr: "orbits s0 = orbits st" "files s0 = files st" by simp_all
  from assms f fr show ?thesis
    by (auto simp: build_orbit_def save_orbit_def split: sum.splits)
qed

lemma get_filename_inj: "get_filename d = get_filename d' \<longleftrightarrow> d = d'"
  by (simp add: get_filename_def)

lemma metadata_image:
  "metadata st = (\<lambda>f. re_split f ! 1) ` {f \<in> fst ` set (files st). take 7 f = ''orbits_''}"
  by (auto simp: metadata_def)

lemma metadata_update:
  "metadata st \<subseteq> metadata (st\<lparr>files := AList.update k v (files st)\<rparr>)"
proof -
  have "fst ` set (files st) \<subseteq> fst ` set (AList.update k v (files st))"
    by (auto simp: dom_update)
  then have "{f \<in> fst ` set (files st). take 7 f = ''orbits_''}
      \<subseteq> {f \<in> fst ` set (AList.update k v (files st)). take 7 f = ''orbits_''}"
    by blast
  then show ?thesis unfolding metadata_image by (simp add: image_mono)
qed

lemma metadata_cong: "files s1 = files s2 \<Longrightarrow> metadata s1 = metadata s2"
  by (simp add: metadata_def)

lemma build_orbit_files:
  assumes "build_orbit env st d = (r, s1)"
  shows "metadata st \<subseteq> metadata s1
     \<and> (\<forall>f. f \<noteq> get_filename d \<longrightarrow> map_of (files s1) f = map_of (files st) f)
     \<and> (map_of (files st) (get_filename d) \<noteq> None \<longrightarrow> map_of (files s1) (get_filename d) \<noteq> None)
     \<and> (r = None \<longrightarrow> map_of (files s1) (get_filename d) \<noteq> None)
     \<and> (r \<noteq> None \<longrightarrow> map_of (files s1) (get_filename d) = map_of (files st) (get_filename d))"
proof (cases r)
  case None
  with build_orbit_frame [OF assms] obtain m
    where m: "files s1 = AList.update (get_filename d) m (files st)" by auto
  have "metadata st \<subseteq> metadata s1"
    using metadata_update [of st "get_filename d" m]
      metadata_cong [of s1 "st\<lparr>files := AList.update (get_filename d) m (files st)\<rparr>"] m
    by simp
  with m None show ?thesis by (simp add: update_conv')
next
  case (Some e)
  with build_orbit_frame [OF assms] have "files s1 = files st" by simp
  with Some metadata_cong [of s1 st] show ?thesis by simp
qed


lemma build_orbit_all_fail:
  assumes "get_sp3_file env d Final = Inl e1" and "get_sp3_file env d Rapid = Inl e2"
    and "get_sp3_file env d Ultra = Inl e3"
  shows "build_orbit env st d =
     (Some e3, st\<lparr>warned := warned st @ [Final_unavailable, Rapid_unavailable],
                 fetched := fetched st @ [(d, Final), (d, Rapid), (d, Ultra)]\<rparr>)"
  using assms fetch_sp3_ultra [OF assms(1,2), of st] by (simp add: build_orbit_def)

lemma build_missing_all_fail:
  assumes "get_sp3_file env d Final = Inl e1" and "get_sp3_file env d Rapid = Inl e2"
    and "get_sp3_file env d Ultra = Inl e3"
    and "d \<in> set ds" and "distinct ds"
  shows "\<exists>e s1. build_missing env st ds = (Some e, s1) \<and> orbits s1 = orbits st
     \<and> map_of (files s1) (get_filename d) = map_of (files st) (get_filename d)"
  using assms(4,5)
proof (induction ds arbitrary: st)
  case Nil
  then show ?case by simp
next
  case (Cons d' ds)
  obtain q s0 where b: "build_orbit env st d' = (q, s0)" by (cases "build_orbit env st d'")
  note fr = build_orbit_frame [OF b] and fl = build_orbit_files [OF b]
  show ?case
  proof (cases "d' = d")
    case True
    with build_orbit_all_fail [OF assms(1-3), of st] show ?thesis by simp
  next
    case False
    with Cons.prems have din: "d \<in> set ds" and dist: "distinct ds" by simp_all
    from False have nf: "get_filename d \<noteq> get_filename d'" by (simp add: get_filename_inj)
    show ?thesis
    proof (cases q)
      case (Some e)
      with b fr fl nf show ?thesis by simp
    next
      case None
      from Cons.IH [OF din dist, of s0] obtain e s1 where
        "build_missing env s0 ds = (Some e, s1)" "orbits s1 = orbits s0"
        "map_of (files s1) (get_filename d) = map_of (files s0) (get_filename d)" by blast
      with None b fr fl nf show ?thesis by simp
    qed
  qed
qed


text \<open>
  Claim C3, as stated, fails: when all three tiers fail for a missing day, the call does
  not complete. The exception of the attempt for \<open>ultra\<close> leaves \<open>_update_orbits\<close>, after
  the two warnings for \<open>final\<close> and \<open>rapid\<close>; nothing is saved and nothing is loaded into the
  cache.
\<close>

theorem update_orbits_all_fail_counterexample:
  "update_orbits staged_products fresh_store [''2020042'']
     = (Some (Collaborator_error ''ultra''),
        \<lparr>orbits = Map.empty, files = [],
         warned = [Final_unavailable, Rapid_unavailable],
         fetched = [(''2020042'', Final), (''2020042'', Rapid), (''2020042'', Ultra)]\<rparr>)"
  by (simp add: update_orbits_def metadata_def build_orbit_def fetch_sp3_def staged_products_def
      fresh_store_def)

text \<open>
  Claim C3, amended. For a day, acquisition attempts the tiers in the order final, rapid,
  ultra: a success ends the attempts, a failure of \<open>final\<close> or of \<open>rapid\<close> emits a warning
  and falls through to the next tier, and the outcome of the attempt for \<open>ultra\<close> is the
  outcome of the acquisition. If all three tiers fail for a missing day, the exception of
  the attempt for \<open>ultra\<close> leaves \<open>_update_orbits\<close>: called for that day alone, the call
  raises it after the two warnings and the three attempts, with the directory and the
  cache as they were; called for any days that include it, the call raises, the cache is
  as it was and the day's record is as it was, so the day is left unbuilt, and a lookup
  for the day, if it was not cached before, returns the unavailable signal.
\<close>

theorem update_orbits_tiers:
  "(get_sp3_file env d Final = Inr f
      \<longrightarrow> fetch_sp3 env st d = (Inr f, st\<lparr>fetched := fetched st @ [(d, Final)]\<rparr>))
   \<and> (get_sp3_file env d Final = Inl e1 \<and> get_sp3_file env d Rapid = Inr r
      \<longrightarrow> fetch_sp3 env st d =
            (Inr r, st\<lparr>warned := warned st @ [Final_unavailable],
                      fetched := fetched st @ [(d, Final), (d, Rapid)]\<rparr>))
   \<and> (get_sp3_file env d Final = Inl e1 \<and> get_sp3_file env d Rapid = Inl e2
      \<longrightarrow> fetch_sp3 env st d =
            (get_sp3_file env d Ultra,
             st\<lparr>warned := warned st @ [Final_unavailable, Rapid_unavailable],
                fetched := fetched st @ [(d, Final), (d, Rapid), (d, Ultra)]\<rparr>))
   \<and> (get_sp3_file env d Final = Inl e1 \<and> get_sp3_file env d Rapid = Inl e2
        \<and> get_sp3_file env d Ultra = Inl e3 \<and> d \<notin> metadata st
      \<longrightarrow> update_orbits env st [d] =
            (Some e3, st\<lparr>warned := warned st @ [Final_unavailable, Rapid_unavailable],
                        fetched := fetched st @ [(d, Final), (d, Rapid), (d, Ultra)]\<rparr>)
          \<and> (d \<in> set days
              \<longrightarrow> (\<exists>e st'. update_orbits env st days = (Some e, st')
                    \<and> orbits st' = orbits st
                    \<and> map_of (files st') (get_filename d) = map_of (files st) (get_filename d)
                    \<and> (orbits st d = None
                        \<longrightarrow> locate_sat_vectorised (orbits st') d ts s
                              = Inr ([Orbit_unavailable s d],
                                     Arr1 (replicate (length ts) NaN))))))"
proof (intro conjI impI)
  assume "get_sp3_file env d Final = Inr f"
  then show "fetch_sp3 env st d = (Inr f, st\<lparr>fetched := fetched st @ [(d, Final)]\<rparr>)"
    by (rule fetch_sp3_final)
next
  assume "get_sp3_file env d Final = Inl e1 \<and> get_sp3_file env d Rapid = Inr r"
  then show "fetch_sp3 env st d =
            (Inr r, st\<lparr>warned := warned st @ [Final_unavailable],
                      fetched := fetched st @ [(d, Final), (d, Rapid)]\<rparr>)"
    by (simp add: fetch_sp3_rapid)
next
  assume "get_sp3_file env d Final = Inl e1 \<and> get_sp3_file env d Rapid = Inl e2"
  then show "fetch_sp3 env st d =
            (get_sp3_file env d Ultra,
             st\<lparr>warned := warned st @ [Final_unavailable, Rapid_unavailable],
                fetched := fetched st @ [(d, Final), (d, Rapid), (d, Ultra)]\<rparr>)"
    by (simp add: fetch_sp3_ultra)
next
  assume a: "get_sp3_file env d Final = Inl e1 \<and> get_sp3_file env d Rapid = Inl e2
        \<and> get_sp3_file env d Ultra = Inl e3 \<and> d \<notin> metadata st"
  then have f: "get_sp3_file env d Final = Inl e1" "get_sp3_file env d Rapid = Inl e2"
    "get_sp3_file env d Ultra = Inl e3" and m: "d \<notin> metadata st" by simp_all
  from build_orbit_all_fail [OF f, of st] m
  show "update_orbits env st [d] =
            (Some e3, st\<lparr>warned := warned st @ [Final_unavailable, Rapid_unavailable],
                        fetched := fetched st @ [(d, Final), (d, Rapid), (d, Ultra)]\<rparr>)"
    by (simp add: update_orbits_def)
next
  assume a: "get_sp3_file env d Final = Inl e1 \<and> get_sp3_file env d Rapid = Inl e2
        \<and> get_sp3_file env d Ultra = Inl e3 \<and> d \<notin> metadata st"
    and din: "d \<in> set days"
  then have f: "get_sp3_file env d Final = Inl e1" "get_sp3_file env d Rapid = Inl e2"
    "get_sp3_file env d Ultra = Inl e3" and m: "d \<notin> metadata st" by simp_all
  let ?missing = "filter (\<lambda>d. d \<notin> metadata st) (remdups days)"
  have "d \<in> set ?missing" "distinct ?missing" using din m by simp_all
  from build_missing_all_fail [OF f this, of st] obtain e s1 where
    "build_missing env st ?missing = (Some e, s1)" "orbits s1 = orbits st"
    "map_of (files s1) (get_filename d) = map_of (files st) (get_filename d)" by blast
  moreover have "locate_sat_vectorised (orbits s1) d ts s
      = Inr ([Orbit_unavailable s d], Arr1 (replicate (length ts) NaN))"
    if "orbits st d = None"
    using that \<open>orbits s1 = orbits st\<close>
    by (intro locate_sat_vectorised_absent) (simp add: lookup_orbit_def)
  ultimately show "\<exists>e st'. update_orbits env st days = (Some e, st')
                    \<and> orbits st' = orbits st
                    \<and> map_of (files st') (get_filename d) = map_of (files st) (get_filename d)
                    \<and> (orbits st d = None
                        \<longrightarrow> locate_sat_vectorised (orbits st') d ts s
                              = Inr ([Orbit_unavailable s d],
                                     Arr1 (replicate (length ts) NaN)))"
    by (simp add: update_orbits_def)
qed

theorem update_orbits_tiers_witness:
  "fetch_sp3 staged_products fresh_store ''2020001''
     = (Inr ''final product'',
        fresh_store\<lparr>fetched := fetched fresh_store @ [(''2020001'', Final)]\<rparr>)
   \<and> fetch_sp3 staged_products fresh_store ''2020002''
     = (Inr ''rapid product'',
        fresh_store\<lparr>warned := warned fresh_store @ [Final_unavailable],
          fetched := fetched fresh_store @ [(''2020002'', Final), (''2020002'', Rapid)]\<rparr>)
   \<and> fetch_sp3 staged_products fresh_store ''2020042''
     = (Inl (Collaborator_error ''ultra''),
        fresh_store\<lparr>warned := warned fresh_store @ [Final_unavailable, Rapid_unavailable],
          fetched := fetched fresh_store
             @ [(''2020042'', Final), (''2020042'', Rapid), (''2020042'', Ultra)]\<rparr>)
   \<and> ''2020042'' \<notin> metadata fresh_store
   \<and> update_orbits staged_products fresh_store [''2020042'']
     = (Some (Collaborator_error ''ultra''),
        fresh_store\<lparr>warned := warned fresh_store @ [Final_unavailable, Rapid_unavailable],
          fetched := fetched fresh_store
             @ [(''2020042'', Final), (''2020042'', Rapid), (''2020042'', Ultra)]\<rparr>)
   \<and> (\<exists>e st'. update_orbits staged_products fresh_store [''2020001'', ''2020042'']
          = (Some e, st')
        \<and> orbits st' = orbits fresh_store
        \<and> map_of (files st') (get_filename ''2020042'')
          = map_of (files fresh_store) (get_filename ''2020042''))"
proof -
  have f1: "get_sp3_file staged_products ''2020001'' Final = Inr ''final product''"
    by (simp add: staged_products_def)
  have f2: "get_sp3_file staged_products ''2020002'' Final = Inl (Collaborator_error ''final'')
        \<and> get_sp3_file staged_products ''2020002'' Rapid = Inr ''rapid product''"
    by (simp add: staged_products_def)
  have f3: "get_sp3_file staged_products ''2020042'' Final = Inl (Collaborator_error ''final'')
        \<and> get_sp3_file staged_products ''2020042'' Rapid = Inl (Collaborator_error ''rapid'')"
    by (simp add: staged_products_def)
  have f4: "get_sp3_file staged_products ''2020042'' Ultra = Inl (Collaborator_error ''ultra'')"
    by (simp add: staged_products_def)
  have m: "''2020042'' \<notin> metadata fresh_store"
    by (simp add: fresh_store_def metadata_def)
  have d: "''2020042'' \<in> set [''2020001'', ''2020042'']" by simp
  note t1 = update_orbits_tiers [of staged_products "''2020001''" "''final product''" fresh_store]
  note t2 = update_orbits_tiers [of staged_products "''2020002''" _ fresh_store
      "Collaborator_error ''final''" "''rapid product''"]
  note t3 = update_orbits_tiers [of staged_products "''2020042''" _ fresh_store
      "Collaborator_error ''final''" _ "Collaborator_error ''rapid''"
      "Collaborator_error ''ultra''" "[''2020001'', ''2020042'']"]
  from t1 f1 have a: "fetch_sp3 staged_products fresh_store ''2020001''
     = (Inr ''final product'',
        fresh_store\<lparr>fetched := fetched fresh_store @ [(''2020001'', Final)]\<rparr>)"
    by blast
  from t2 f2 have b: "fetch_sp3 staged_products fresh_store ''2020002''
     = (Inr ''rapid product'',
        fresh_store\<lparr>warned := warned fresh_store @ [Final_unavailable],
          fetched := fetched fresh_store @ [(''2020002'', Final), (''2020002'', Rapid)]\<rparr>)"
    by blast
  from t3 f3 f4 have c: "fetch_sp3 staged_products fresh_store ''2020042''
     = (Inl (Collaborator_error ''ultra''),
        fresh_store\<lparr>warned := warned fresh_store @ [Final_unavailable, Rapid_unavailable],
          fetched := fetched fresh_store
             @ [(''2020042'', Final), (''2020042'', Rapid), (''2020042'', Ultra)]\<rparr>)"
    by simp
  from t3 f3 f4 m d have e: "update_orbits staged_products fresh_store [''2020042'']
     = (Some (Collaborator_error ''ultra''),
        fresh_store\<lparr>warned := warned fresh_store @ [Final_unavailable, Rapid_unavailable],
          fetched := fetched fresh_store
             @ [(''2020042'', Final), (''2020042'', Rapid), (''2020042'', Ultra)]\<rparr>)
   \<and> (\<exists>e st'. update_orbits staged_products fresh_store [''2020001'', ''2020042'']
          = (Some e, st')
        \<and> orbits st' = orbits fresh_store
        \<and> map_of (files st') (get_filename ''2020042'')
          = map_of (files fresh_store) (get_filename ''2020042''))"
    by blast
  from a b c m e show ?thesis by blast
qed

section \<open>The cache after an update\<close>







text \<open>
  A call that builds a day: the final product is fetched, two windows are fitted for the
  satellite, the model is saved under \<open>orbits_2020001.json\<close> and loaded into the cache.
\<close>

lemma update_orbits_builds_day:
  "update_orbits staged_products fresh_store [''2020001'']
     = (None,
        \<lparr>orbits = [''2020001'' \<mapsto> [(''G01'',
            [(900, \<lparr>lb = 0, ub = 2100, mid = \<lparr>v_tm = 900, v_x = 0, v_y = 0, v_z = 0\<rparr>,
                    scale = \<lparr>v_tm = 2100, v_x = 0, v_y = 0, v_z = 0\<rparr>,
                    coef_x = [1], coef_y = [1], coef_z = [1]\<rparr>),
             (1200, \<lparr>lb = 300, ub = 2400, mid = \<lparr>v_tm = 1200, v_x = 0, v_y = 0, v_z = 0\<rparr>,
                    scale = \<lparr>v_tm = 2100, v_x = 0, v_y = 0, v_z = 0\<rparr>,
                    coef_x = [1], coef_y = [1], coef_z = [1]\<rparr>)])]],
         files = [(''orbits_2020001.json'', [(''G01'',
            [(900, \<lparr>lb = 0, ub = 2100, mid = \<lparr>v_tm = 900, v_x = 0, v_y = 0, v_z = 0\<rparr>,
                    scale = \<lparr>v_tm = 2100, v_x = 0, v_y = 0, v_z = 0\<rparr>,
                    coef_x = [1], coef_y = [1], coef_z = [1]\<rparr>),
             (1200, \<lparr>lb = 300, ub = 2400, mid = \<lparr>v_tm = 1200, v_x = 0, v_y = 0, v_z = 0\<rparr>,
                    scale = \<lparr>v_tm = 2100, v_x = 0, v_y = 0, v_z = 0\<rparr>,
                    coef_x = [1], coef_y = [1], coef_z = [1]\<rparr>)])])],
         warned = [], fetched = [(''2020001'', Final)]\<rparr>)"
  by (simp add: update_orbits_def metadata_def fresh_store_def staged_products_def build_orbit_def
      fetch_sp3_def upt9 create_orbit_def unique_def fit_series_def py_range.simps
      poly_lagrange_def Let_def row_vec_def vec_sub_def save_orbit_def load_orbit_def
      get_filename_def)




end
